theory Spec2Isabelle
  imports Main "HOL-Library.Multiset"
begin

section \<open>The message node (src/views/nodes/messagenode.ts)\<close>

text \<open>
  The base class \<open>PeripheralBaseNode\<close> (basenode.ts), \<open>AddrRange\<close> and \<open>NodeSetting\<close> are
  declared outside the two source files. The base class is kept as an abstract type;
  address ranges and settings entries are type parameters of the methods that take or
  return them.

  A tooltip is \<open>string | MarkdownString\<close>; an absent constructor argument is \<open>None\<close>.
\<close>

typedecl PeripheralBaseNode

datatype TooltipText = Str string | MarkdownString string

datatype TreeItemCollapsibleState = State_None | State_Collapsed | State_Expanded

text \<open>
  The host's \<open>TreeItem\<close>. The property \<open>tooltip\<close> is \<open>None\<close> as long as nothing has been
  assigned to it, which is how the constructor \<open>new TreeItem(label, collapsibleState)\<close>
  leaves it.
\<close>

record TreeItem =
  label :: string
  collapsibleState :: TreeItemCollapsibleState
  tooltip :: "TooltipText option"

definition new_TreeItem :: "string \<Rightarrow> TreeItemCollapsibleState \<Rightarrow> TreeItem" where
  "new_TreeItem l c = \<lparr>label = l, collapsibleState = c, tooltip = None\<rparr>"

record MessageNode =
  message :: string
  tooltip :: "TooltipText option"

text \<open>A settled promise, as \<open>Promise.resolve\<close> builds it.\<close>

datatype 'a Thenable = Resolved 'a | Rejected string

text \<open>
  JavaScript truthiness of \<open>this.tooltip\<close>: \<open>undefined\<close> and the empty string are falsy,
  every other string and every object are truthy.
\<close>

fun truthy :: "TooltipText option \<Rightarrow> bool" where
  "truthy None = False"
| "truthy (Some (Str s)) = (s \<noteq> [])"
| "truthy (Some (MarkdownString v)) = True"

definition getChildren :: "MessageNode \<Rightarrow> PeripheralBaseNode list" where
  "getChildren this = []"

definition getTreeItem :: "MessageNode \<Rightarrow> TreeItem" where
  "getTreeItem this =
     (let ti = new_TreeItem (message this) State_None
      in if truthy (MessageNode.tooltip this)
         then ti\<lparr>TreeItem.tooltip := MessageNode.tooltip this\<rparr>
         else ti)"

definition getCopyValue :: "MessageNode \<Rightarrow> string option" where
  "getCopyValue this = None"

definition performUpdate :: "MessageNode \<Rightarrow> bool Thenable" where
  "performUpdate this = Resolved False"

definition updateData :: "MessageNode \<Rightarrow> bool Thenable" where
  "updateData this = Resolved False"

definition getPeripheral :: "MessageNode \<Rightarrow> PeripheralBaseNode option" where
  "getPeripheral this = None"

text \<open>\<open>collectRanges\<close> returns nothing; its effect is the accumulator array afterwards.\<close>

definition collectRanges :: "MessageNode \<Rightarrow> 'r list \<Rightarrow> 'r list" where
  "collectRanges this ary = ary"

definition saveState :: "MessageNode \<Rightarrow> string option \<Rightarrow> 'n list" where
  "saveState this path = []"

definition findByPath :: "MessageNode \<Rightarrow> string list \<Rightarrow> PeripheralBaseNode option" where
  "findByPath this path = None"

section \<open>The tree table component (treetable.tsx)\<close>

subsection \<open>Data\<close>

text \<open>
  Modelled from the spec: the declarations of \<open>CDTTreeItem\<close>, \<open>CDTTreeTableColumnDefinition\<close>,
  \<open>CDTTreeTableActionColumn\<close> (../types) and \<open>CommandDefinition\<close> (../../../common), which
  are not among the source files. The specification gives a row a stable string key and an
  optional pinned flag, a column definition a field key and a variant tag, and an action
  cell its commands, each command with an associated value. Each type is the record of
  these properties, under the names by which treetable.tsx reads them. An optional
  property is an \<open>option\<close>, \<open>None\<close> for \<open>undefined\<close>.
\<close>

record 'v CommandDefinition =
  commandId :: string
  icon :: string
  value' :: 'v

record 'v CDTTreeTableActionColumn =
  commands :: "'v CommandDefinition list option"

record CDTTreeItem =
  id' :: string
  pinned :: "bool option"

record CDTTreeTableColumnDefinition =
  type' :: string
  field :: string

text \<open>
  A mouse event is a mutable object; what the component's behaviour depends on is
  whether a handler has called \<open>stopPropagation\<close> on it.
\<close>

record MouseEvent =
  propagationStopped :: bool

text \<open>
  Arrays are objects. The array of rows is sorted in place by the component, so rows
  live in a store of arrays and \<open>dataSource\<close> is an address. The arrays the component only
  reads carry their contents; where the identity of such an array matters (the
  dependency list of an effect compares with \<open>Object.is\<close>), it is paired with its address.
\<close>

type_synonym addr = nat

record 'r heap =
  cells :: "addr \<Rightarrow> 'r list"
  next_free :: addr

text \<open>
  The props. A callback acts on the state \<open>'s\<close> of the embedding application; a callback
  that is handed the event returns it as well, since it may stop its propagation.
\<close>

record 's Expansion =
  expandedRowKeys :: "string list option"
  onExpand :: "(bool \<Rightarrow> CDTTreeItem \<Rightarrow> 's \<Rightarrow> 's) option"

record 's Pin =
  pinnedRowKeys :: "(addr \<times> string list) option"
  onPin :: "(MouseEvent \<Rightarrow> bool \<Rightarrow> CDTTreeItem \<Rightarrow> 's \<Rightarrow> MouseEvent \<times> 's) option"

record ('s, 'v) Action =
  onAction :: "(MouseEvent \<Rightarrow> 'v CommandDefinition \<Rightarrow> 'v \<Rightarrow> CDTTreeItem \<Rightarrow> 's
                 \<Rightarrow> MouseEvent \<times> 's) option"

record ('s, 'v) ComponentTreeTableProps =
  columnDefinitions :: "(addr \<times> CDTTreeTableColumnDefinition list) option"
  dataSource :: "addr option"
  dataSourceComparer :: "(CDTTreeItem \<Rightarrow> CDTTreeItem \<Rightarrow> int) option"
  expansion :: "'s Expansion option"
  pin :: "'s Pin option"
  action :: "('s, 'v) Action option"

subsection \<open>Rendered elements and click dispatch\<close>

text \<open>An \<open>i\<close> element with its key, class and click handler.\<close>

record 's IElement =
  key :: string
  className :: string
  onClick :: "MouseEvent \<Rightarrow> 's \<Rightarrow> MouseEvent \<times> 's"

record 's DivElement =
  divClassName :: string
  children :: "'s IElement list"

text \<open>
  React delivers a click to the handler of the element clicked and then to the handlers
  of the elements around it, innermost first, until a handler has stopped the
  propagation of the event.
\<close>

fun dispatchClick ::
  "(MouseEvent \<Rightarrow> 's \<Rightarrow> MouseEvent \<times> 's) list \<Rightarrow> MouseEvent \<Rightarrow> 's \<Rightarrow> MouseEvent \<times> 's" where
  "dispatchClick [] event s = (event, s)"
| "dispatchClick (h # hs) event s =
     (case h event s of
        (event', s') \<Rightarrow>
          if propagationStopped event' then (event', s') else dispatchClick hs event' s')"

subsection \<open>Renderers\<close>

text \<open>\<open>props.pin?.onPin?.(event, pinned, record)\<close>\<close>

definition call_onPin ::
  "('s, 'v) ComponentTreeTableProps \<Rightarrow> MouseEvent \<Rightarrow> bool \<Rightarrow> CDTTreeItem \<Rightarrow> 's \<Rightarrow> MouseEvent \<times> 's" where
  "call_onPin props event newPinned row s =
     (case pin props of
        None \<Rightarrow> (event, s)
      | Some p \<Rightarrow> (case onPin p of None \<Rightarrow> (event, s) | Some f \<Rightarrow> f event newPinned row s))"

text \<open>\<open>props.action?.onAction?.(event, command, command.value, record)\<close>\<close>

definition call_onAction ::
  "('s, 'v) ComponentTreeTableProps \<Rightarrow> MouseEvent \<Rightarrow> 'v CommandDefinition \<Rightarrow> 'v \<Rightarrow> CDTTreeItem
     \<Rightarrow> 's \<Rightarrow> MouseEvent \<times> 's" where
  "call_onAction props event command v row s =
     (case action props of
        None \<Rightarrow> (event, s)
      | Some a \<Rightarrow> (case onAction a of None \<Rightarrow> (event, s) | Some f \<Rightarrow> f event command v row s))"

text \<open>
  \<open>renderActionColumn(column, record)\<close>: the pin toggle, if \<open>record.pinned\<close> is defined, and
  then one icon for each command of the column.
\<close>

definition renderActionColumn ::
  "('s, 'v) ComponentTreeTableProps \<Rightarrow> 'v CDTTreeTableActionColumn option \<Rightarrow> CDTTreeItem
     \<Rightarrow> 's DivElement" where
  "renderActionColumn props column row =
     (let actions =
        (case pinned row of
           None \<Rightarrow> []
         | Some p \<Rightarrow>
             if p
             then [\<lparr>key = ''unpin'', className = ''codicon codicon-pin'',
                    onClick = (\<lambda>event. call_onPin props event False row)\<rparr>]
             else [\<lparr>key = ''pin'', className = ''codicon codicon-pinned'',
                    onClick = (\<lambda>event. call_onPin props event True row)\<rparr>])
      in \<lparr>divClassName = ''tree-actions'',
          children = actions @
            (case column of
               None \<Rightarrow> []
             | Some c \<Rightarrow>
                 (case commands c of
                    None \<Rightarrow> []
                  | Some cs \<Rightarrow>
                      map (\<lambda>command.
                             \<lparr>key = commandId command,
                              className = ''codicon codicon-'' @ icon command,
                              onClick = (\<lambda>event.
                                call_onAction props event command (value' command) row)\<rparr>)
                          cs))\<rparr>)"

subsection \<open>Columns\<close>

text \<open>
  The \<open>render\<close> property of a column names the renderer bound to it: for a string column
  the closure that calls \<open>renderStringColumn\<close> with the nested value at
  \<open>['columns', def.field]\<close>, for an action column \<open>renderActionColumn\<close> itself. \<open>None\<close> is a
  column without a \<open>render\<close> property, for which the table shows the value at \<open>dataIndex\<close>.
\<close>

datatype Renderer = RenderStringColumn string | RenderActionColumn

record ColumnType =
  title :: string
  dataIndex :: "string list"
  width :: nat
  render :: "Renderer option"

definition stringColumn :: "CDTTreeTableColumnDefinition \<Rightarrow> ColumnType" where
  "stringColumn def =
     \<lparr>title = field def, dataIndex = [''columns'', field def, ''label''], width = 0,
      render = Some (RenderStringColumn (field def))\<rparr>"

definition actionColumn :: "CDTTreeTableColumnDefinition \<Rightarrow> ColumnType" where
  "actionColumn def =
     \<lparr>title = field def, dataIndex = [''columns'', field def], width = 64,
      render = Some RenderActionColumn\<rparr>"

definition createColumns :: "CDTTreeTableColumnDefinition list \<Rightarrow> ColumnType list" where
  "createColumns columnDefinitions' =
     map (\<lambda>c. if type' c = ''string'' then stringColumn c
              else if type' c = ''action'' then actionColumn c
              else \<lparr>title = field c, dataIndex = [''columns'', field c, ''label''],
                    width = 200, render = None\<rparr>)
         columnDefinitions'"

subsection \<open>Sorting the rows\<close>

text \<open>
  \<open>Array.prototype.sort(comparefn)\<close> sorts the array in place and returns it. The sort is
  stable, an element \<open>x\<close> goes before \<open>y\<close> when \<open>comparefn(x, y) < 0\<close>, and for a consistent
  comparator every stable sort gives the same array; it is written here as insertion
  from the right (for a comparator that is not consistent the standard leaves the order
  to the implementation). Without a comparator the elements are compared as strings;
  rows are plain objects, which all convert to the same string, so they compare equal.
\<close>

definition sortCompare :: "('r \<Rightarrow> 'r \<Rightarrow> int) option \<Rightarrow> 'r \<Rightarrow> 'r \<Rightarrow> int" where
  "sortCompare comparefn x y = (case comparefn of None \<Rightarrow> 0 | Some f \<Rightarrow> f x y)"

fun insert_sorted :: "('r \<Rightarrow> 'r \<Rightarrow> int) \<Rightarrow> 'r \<Rightarrow> 'r list \<Rightarrow> 'r list" where
  "insert_sorted cmp x [] = [x]"
| "insert_sorted cmp x (y # ys) =
     (if cmp x y \<le> 0 then x # y # ys else y # insert_sorted cmp x ys)"

definition sorted_list :: "('r \<Rightarrow> 'r \<Rightarrow> int) option \<Rightarrow> 'r list \<Rightarrow> 'r list" where
  "sorted_list comparefn xs = foldr (insert_sorted (sortCompare comparefn)) xs []"

definition Array_sort :: "('r \<Rightarrow> 'r \<Rightarrow> int) option \<Rightarrow> addr \<Rightarrow> 'r heap \<Rightarrow> addr \<times> 'r heap" where
  "Array_sort comparefn a h = (a, h\<lparr>cells := (cells h)(a := sorted_list comparefn (cells h a))\<rparr>)"

text \<open>A consistent comparator, in the sense of the language standard: a tri-state ordering.\<close>

definition consistentComparator :: "('r \<Rightarrow> 'r \<Rightarrow> int) \<Rightarrow> bool" where
  "consistentComparator cmp \<longleftrightarrow>
     (\<forall>a b. (cmp a b < 0) = (0 < cmp b a)) \<and>
     (\<forall>a b c. cmp a b \<le> 0 \<and> cmp b c \<le> 0 \<longrightarrow> cmp a c \<le> 0)"

text \<open>An array literal is a new object.\<close>

definition alloc :: "'r list \<Rightarrow> 'r heap \<Rightarrow> addr \<times> 'r heap" where
  "alloc xs h =
     (next_free h, h\<lparr>cells := (cells h)(next_free h := xs), next_free := Suc (next_free h)\<rparr>)"

text \<open>\<open>props.dataSource ?? []\<close>\<close>

definition dataSource_or_empty ::
  "('s, 'v) ComponentTreeTableProps \<Rightarrow> CDTTreeItem heap \<Rightarrow> addr \<times> CDTTreeItem heap" where
  "dataSource_or_empty props h = (case dataSource props of Some a \<Rightarrow> (a, h) | None \<Rightarrow> alloc [] h)"

subsection \<open>The component\<close>

text \<open>
  The state of a mounted component: the window size held by \<open>useWindowSize\<close>, the two
  \<open>useState\<close> cells of the component and, for each effect with dependencies, the
  dependencies of its last run.
\<close>

record ComponentState =
  size_state :: "int \<times> int"
  dataSource_state :: addr
  columns_state :: "ColumnType list"
  sortDeps :: "addr option \<times> addr option"
  columnDeps :: "addr option"

text \<open>
  \<open>useWindowSize\<close> starts from \<open>[0, 0]\<close>; its layout effect, and every later \<open>resize\<close> event,
  stores the inner width and height of the window.
\<close>

definition updateSize :: "int \<times> int \<Rightarrow> ComponentState \<Rightarrow> ComponentState" where
  "updateSize window st = st\<lparr>size_state := window\<rparr>"

text \<open>
  The first effect (lines 104 to 106) and its dependencies
  \<open>[props.dataSource, props.pin?.pinnedRowKeys]\<close>.
\<close>

definition sortEffect ::
  "('s, 'v) ComponentTreeTableProps \<Rightarrow> ComponentState \<Rightarrow> CDTTreeItem heap
     \<Rightarrow> ComponentState \<times> CDTTreeItem heap" where
  "sortEffect props st h =
     (case dataSource_or_empty props h of
        (a, h1) \<Rightarrow>
          (case Array_sort (dataSourceComparer props) a h1 of
             (a', h2) \<Rightarrow> (st\<lparr>dataSource_state := a'\<rparr>, h2)))"

definition sortEffectDeps :: "('s, 'v) ComponentTreeTableProps \<Rightarrow> addr option \<times> addr option" where
  "sortEffectDeps props =
     (dataSource props,
      case pin props of None \<Rightarrow> None | Some p \<Rightarrow> map_option fst (pinnedRowKeys p))"

text \<open>The second effect (lines 194 to 196) and its dependencies \<open>[props.columnDefinitions]\<close>.\<close>

definition columnDefinitions_or_empty ::
  "('s, 'v) ComponentTreeTableProps \<Rightarrow> CDTTreeTableColumnDefinition list" where
  "columnDefinitions_or_empty props =
     (case columnDefinitions props of None \<Rightarrow> [] | Some (a, defs) \<Rightarrow> defs)"

definition columnsEffect :: "('s, 'v) ComponentTreeTableProps \<Rightarrow> ComponentState \<Rightarrow> ComponentState" where
  "columnsEffect props st = st\<lparr>columns_state := createColumns (columnDefinitions_or_empty props)\<rparr>"

definition columnsEffectDeps :: "('s, 'v) ComponentTreeTableProps \<Rightarrow> addr option" where
  "columnsEffectDeps props = map_option fst (columnDefinitions props)"

text \<open>
  What the component returns (lines 199 to 256): the placeholder, or the table with the
  props handed to it.
\<close>

record TableProps =
  columns' :: "ColumnType list"
  dataSource' :: "CDTTreeItem list"
  scroll :: "int \<times> int"
  expandedRowKeys' :: "string list option"

datatype Rendered = Placeholder string | Table TableProps

definition render_result ::
  "('s, 'v) ComponentTreeTableProps \<Rightarrow> ComponentState \<Rightarrow> CDTTreeItem heap \<Rightarrow> Rendered" where
  "render_result props st h =
     (if length (cells h (dataSource_state st)) = 0
      then Placeholder ''No children provided''
      else Table \<lparr>columns' = columns_state st,
                  dataSource' = cells h (dataSource_state st),
                  scroll = (fst (size_state st), snd (size_state st) - 2),
                  expandedRowKeys' =
                    (case expansion props of None \<Rightarrow> None | Some e \<Rightarrow> expandedRowKeys e)\<rparr>)"

text \<open>
  The click handler that \<open>onRow\<close> gives every row (lines 218 to 224). \<open>includes\<close> is only
  called on a list that is there, and \<open>!\<close> of \<open>undefined\<close> is \<open>true\<close>.
\<close>

definition Array_includes :: "string list option \<Rightarrow> string \<Rightarrow> bool option" where
  "Array_includes keys k = (case keys of None \<Rightarrow> None | Some ks \<Rightarrow> Some (k \<in> set ks))"

fun js_not :: "bool option \<Rightarrow> bool" where
  "js_not None = True"
| "js_not (Some b) = (\<not> b)"

definition onRow_onClick :: "('s, 'v) ComponentTreeTableProps \<Rightarrow> CDTTreeItem \<Rightarrow> 's \<Rightarrow> 's" where
  "onRow_onClick props row s =
     (case expansion props of
        None \<Rightarrow> s
      | Some e \<Rightarrow>
          (case onExpand e of
             None \<Rightarrow> s
           | Some f \<Rightarrow> f (js_not (Array_includes (expandedRowKeys e) (id' row))) row s))"

text \<open>
  A click on a row outside every icon reaches the row's handler only. The icons of
  \<open>renderActionColumn\<close> are drawn in a cell of the row, so a click on an icon reaches the
  icon's handler and then, unless its propagation was stopped, the row's.
\<close>

definition clickRow ::
  "('s, 'v) ComponentTreeTableProps \<Rightarrow> CDTTreeItem \<Rightarrow> MouseEvent \<Rightarrow> 's \<Rightarrow> MouseEvent \<times> 's" where
  "clickRow props row = dispatchClick [\<lambda>event s. (event, onRow_onClick props row s)]"

definition clickIcon ::
  "('s, 'v) ComponentTreeTableProps \<Rightarrow> 's IElement \<Rightarrow> CDTTreeItem \<Rightarrow> MouseEvent \<Rightarrow> 's
     \<Rightarrow> MouseEvent \<times> 's" where
  "clickIcon props el row =
     dispatchClick [onClick el, \<lambda>event s. (event, onRow_onClick props row s)]"

text \<open>
  One render pass: the component function runs on the current state, then the effects
  whose dependencies changed run. On mount the state is initialised from the props, the
  layout effect of \<open>useWindowSize\<close> reads the window and both effects of the component
  run; afterwards the initial-value arguments of \<open>useState\<close> are ignored.
\<close>

definition mount ::
  "('s, 'v) ComponentTreeTableProps \<Rightarrow> int \<times> int \<Rightarrow> CDTTreeItem heap
     \<Rightarrow> Rendered \<times> ComponentState \<times> CDTTreeItem heap" where
  "mount props window h =
     (case dataSource_or_empty props h of
        (a, h0) \<Rightarrow>
          (let st0 = \<lparr>size_state = (0, 0),
                      dataSource_state = a,
                      columns_state = createColumns (columnDefinitions_or_empty props),
                      sortDeps = sortEffectDeps props,
                      columnDeps = columnsEffectDeps props\<rparr>;
               out = render_result props st0 h0
           in case sortEffect props (updateSize window st0) h0 of
                (st1, h1) \<Rightarrow> (out, columnsEffect props st1, h1)))"

definition update ::
  "('s, 'v) ComponentTreeTableProps \<Rightarrow> ComponentState \<Rightarrow> CDTTreeItem heap
     \<Rightarrow> Rendered \<times> ComponentState \<times> CDTTreeItem heap" where
  "update props st h =
     (let out = render_result props st h
      in case (if sortEffectDeps props \<noteq> sortDeps st
               then sortEffect props (st\<lparr>sortDeps := sortEffectDeps props\<rparr>) h
               else (st, h)) of
           (st1, h1) \<Rightarrow>
             (out,
              if columnsEffectDeps props \<noteq> columnDeps st1
              then columnsEffect props (st1\<lparr>columnDeps := columnsEffectDeps props\<rparr>)
              else st1,
              h1))"

subsection \<open>Callbacks that record their invocations\<close>

text \<open>
  To observe which callbacks a gesture invokes, the application state is taken to be
  the list of invocations so far and every callback appends its own. None of these
  callbacks stops the propagation of the event.
\<close>

datatype 'v Invocation =
    Expand bool CDTTreeItem
  | PinCall MouseEvent bool CDTTreeItem
  | ActionCall MouseEvent "'v CommandDefinition" 'v CDTTreeItem

definition recordingProps ::
  "string list option \<Rightarrow> ('v Invocation list, 'v) ComponentTreeTableProps" where
  "recordingProps keys =
     \<lparr>columnDefinitions = None, dataSource = None, dataSourceComparer = None,
      expansion = Some \<lparr>expandedRowKeys = keys,
                        onExpand = Some (\<lambda>expanded row log. log @ [Expand expanded row])\<rparr>,
      pin = Some \<lparr>pinnedRowKeys = None,
                  onPin = Some (\<lambda>event p row log. (event, log @ [PinCall event p row]))\<rparr>,
      action = Some \<lparr>onAction =
                  Some (\<lambda>event command v row log. (event, log @ [ActionCall event command v row]))\<rparr>\<rparr>"

text \<open>A comparator for examples: rows with shorter identifiers first.\<close>

definition byIdLength :: "CDTTreeItem \<Rightarrow> CDTTreeItem \<Rightarrow> int" where
  "byIdLength a b = int (length (id' a)) - int (length (id' b))"

section \<open>Sorting lemmas\<close>

lemma mset_insert_sorted: "mset (insert_sorted cmp x ys) = add_mset x (mset ys)"
  by (induction ys) simp_all

lemma set_insert_sorted: "set (insert_sorted cmp x ys) = insert x (set ys)"
  by (induction ys) auto

lemma consistent_total: "consistentComparator cmp \<Longrightarrow> \<not> cmp x y \<le> 0 \<Longrightarrow> cmp y x \<le> 0"
  unfolding consistentComparator_def by (metis linorder_not_le order_less_imp_le)

lemma consistent_trans:
  "consistentComparator cmp \<Longrightarrow> cmp a b \<le> 0 \<Longrightarrow> cmp b c \<le> 0 \<Longrightarrow> cmp a c \<le> 0"
  unfolding consistentComparator_def by blast

lemma consistent_sym: "consistentComparator cmp \<Longrightarrow> cmp a b = 0 \<Longrightarrow> cmp b a = 0"
  unfolding consistentComparator_def by (metis less_irrefl linorder_neqE_linordered_idom)

lemma sorted_insert_sorted:
  assumes c: "consistentComparator cmp"
  shows "sorted_wrt (\<lambda>a b. cmp a b \<le> 0) ys
           \<Longrightarrow> sorted_wrt (\<lambda>a b. cmp a b \<le> 0) (insert_sorted cmp x ys)"
proof (induction ys)
  case Nil
  then show ?case by simp
next
  case (Cons y ys)
  show ?case
  proof (cases "cmp x y \<le> 0")
    case True
    have "\<forall>z\<in>set ys. cmp x z \<le> 0"
      using Cons.prems True consistent_trans [OF c] by auto
    with True Cons.prems show ?thesis by simp
  next
    case False
    then have "cmp y x \<le> 0" by (rule consistent_total [OF c])
    with False Cons show ?thesis by (auto simp: set_insert_sorted)
  qed
qed

text \<open>
  Stability of one insertion: among the elements that compare equal to \<open>k\<close>, the new
  element comes first and the others keep their order.
\<close>

lemma filter_insert_sorted:
  assumes c: "consistentComparator cmp"
  shows "filter (\<lambda>y. cmp k y = 0) (insert_sorted cmp x ys) =
         (if cmp k x = 0 then x # filter (\<lambda>y. cmp k y = 0) ys else filter (\<lambda>y. cmp k y = 0) ys)"
proof (induction ys)
  case Nil
  then show ?case by simp
next
  case (Cons y ys)
  have skip: "cmp k y \<noteq> 0" if "cmp k x = 0" "\<not> cmp x y \<le> 0"
  proof
    assume "cmp k y = 0"
    moreover have "cmp x k \<le> 0" using consistent_sym [OF c that(1)] by simp
    ultimately have "cmp x y \<le> 0" using consistent_trans [OF c, of x k y] by simp
    with that(2) show False by simp
  qed
  show ?case using Cons skip by auto
qed

lemma mset_sorted_list: "mset (sorted_list comparefn xs) = mset xs"
  by (induction xs) (simp_all add: sorted_list_def mset_insert_sorted)

lemma sortCompare_Some: "sortCompare (Some C) = C"
  by (rule ext, rule ext) (simp add: sortCompare_def)

lemma sorted_sorted_list:
  "consistentComparator C \<Longrightarrow> sorted_wrt (\<lambda>a b. C a b \<le> 0) (sorted_list (Some C) xs)"
proof (induction xs)
  case Nil
  then show ?case by (simp add: sorted_list_def)
next
  case (Cons x xs)
  then show ?case
    using sorted_insert_sorted [of C "sorted_list (Some C) xs" x]
    by (simp add: sorted_list_def sortCompare_Some)
qed

lemma stable_sorted_list:
  "consistentComparator C \<Longrightarrow>
   filter (\<lambda>y. C k y = 0) (sorted_list (Some C) xs) = filter (\<lambda>y. C k y = 0) xs"
proof (induction xs)
  case Nil
  then show ?case by (simp add: sorted_list_def)
next
  case (Cons x xs)
  then show ?case
    using filter_insert_sorted [of C k x "sorted_list (Some C) xs"]
    by (simp add: sorted_list_def sortCompare_Some)
qed

lemma sortEffect_supplied:
  "dataSource props = Some a \<Longrightarrow>
   sortEffect props st h =
     (st\<lparr>dataSource_state := a\<rparr>,
      h\<lparr>cells := (cells h)(a := sorted_list (dataSourceComparer props) (cells h a))\<rparr>)"
  by (simp add: sortEffect_def dataSource_or_empty_def Array_sort_def)

lemma consistent_byIdLength: "consistentComparator byIdLength"
  by (auto simp: consistentComparator_def byIdLength_def)

section \<open>What the action column renders\<close>

lemma children_renderActionColumn:
  "children (renderActionColumn props column X) =
     (case pinned X of
        None \<Rightarrow> []
      | Some p \<Rightarrow>
          [\<lparr>key = if p then ''unpin'' else ''pin'',
            className = if p then ''codicon codicon-pin'' else ''codicon codicon-pinned'',
            onClick = (\<lambda>event. call_onPin props event (\<not> p) X)\<rparr>])
     @ map (\<lambda>command.
              \<lparr>key = commandId command, className = ''codicon codicon-'' @ icon command,
               onClick = (\<lambda>event. call_onAction props event command (value' command) X)\<rparr>)
           (case column of None \<Rightarrow> [] | Some c \<Rightarrow> (case commands c of None \<Rightarrow> [] | Some cs \<Rightarrow> cs))"
  by (simp add: renderActionColumn_def split: option.splits)

section \<open>Properties of the tree table\<close>

text \<open>
  C1, as stated, fails. Row \<open>x\<close> has an action column with two commands, and the
  callbacks only record their invocations. A click on the icon of the second command
  invokes the action callback and then, since nothing has stopped the propagation of
  the event, the row's click handler, which invokes the expand callback.
\<close>

theorem command_icon_click_also_expands:
  "clickIcon (recordingProps (Some []))
     (children (renderActionColumn (recordingProps (Some []))
        (Some \<lparr>commands = Some [\<lparr>commandId = ''copy'', icon = ''files'', value' = (1::nat)\<rparr>,
                                \<lparr>commandId = ''export'', icon = ''desktop-download'', value' = 2\<rparr>]\<rparr>)
        \<lparr>id' = ''x'', pinned = None\<rparr>) ! 1)
     \<lparr>id' = ''x'', pinned = None\<rparr> \<lparr>propagationStopped = False\<rparr> []
   = (\<lparr>propagationStopped = False\<rparr>,
      [ActionCall \<lparr>propagationStopped = False\<rparr>
         \<lparr>commandId = ''export'', icon = ''desktop-download'', value' = 2\<rparr> 2 \<lparr>id' = ''x'', pinned = None\<rparr>,
       Expand True \<lparr>id' = ''x'', pinned = None\<rparr>])"
  by (simp add: clickIcon_def renderActionColumn_def recordingProps_def call_onAction_def
      onRow_onClick_def Array_includes_def)

text \<open>
  C1, amended. For an action column with commands \<open>cs\<close> on row \<open>X\<close> there is one icon for
  each command, after the pin toggle if there is one. The handler of the icon of the
  \<open>k\<close>-th command invokes the action callback with the event, that command, the command's
  value and \<open>X\<close>, and does nothing else. A click on the icon runs this handler and then the
  row's click handler, unless the action callback has stopped the propagation of the
  event.
\<close>

theorem command_icon_click:
  assumes cs: "commands col = Some cs"
    and k: "k < length cs"
    and a: "action props = Some ac"
    and f: "onAction ac = Some f"
  shows "length (children (renderActionColumn props (Some col) X)) =
           (case pinned X of None \<Rightarrow> 0 | Some p \<Rightarrow> 1) + length cs
       \<and> (let el = children (renderActionColumn props (Some col) X)
                      ! ((case pinned X of None \<Rightarrow> 0 | Some p \<Rightarrow> 1) + k)
          in key el = commandId (cs ! k)
             \<and> onClick el event s = f event (cs ! k) (value' (cs ! k)) X s
             \<and> clickIcon props el X event s =
                 (case f event (cs ! k) (value' (cs ! k)) X s of
                    (event', s') \<Rightarrow>
                      if propagationStopped event' then (event', s')
                      else (event', onRow_onClick props X s')))"
  using k
  by (cases "pinned X")
     (simp_all add: children_renderActionColumn cs clickIcon_def call_onAction_def a f
        nth_append Let_def split: prod.splits)

theorem command_icon_click_witness:
  "clickIcon ((recordingProps (Some []))
       \<lparr>action := Some \<lparr>onAction = Some (\<lambda>event command v row log.
           (event\<lparr>propagationStopped := True\<rparr>, log @ [ActionCall event command v row]))\<rparr>\<rparr>)
     (children (renderActionColumn ((recordingProps (Some []))
       \<lparr>action := Some \<lparr>onAction = Some (\<lambda>event command v row log.
           (event\<lparr>propagationStopped := True\<rparr>, log @ [ActionCall event command v row]))\<rparr>\<rparr>)
        (Some \<lparr>commands = Some [\<lparr>commandId = ''copy'', icon = ''files'', value' = (1::nat)\<rparr>,
                                \<lparr>commandId = ''export'', icon = ''desktop-download'', value' = 2\<rparr>]\<rparr>)
        \<lparr>id' = ''x'', pinned = Some False\<rparr>) ! 2)
     \<lparr>id' = ''x'', pinned = Some False\<rparr> \<lparr>propagationStopped = False\<rparr> []
   = (\<lparr>propagationStopped = True\<rparr>,
      [ActionCall \<lparr>propagationStopped = False\<rparr>
         \<lparr>commandId = ''export'', icon = ''desktop-download'', value' = 2\<rparr> 2
         \<lparr>id' = ''x'', pinned = Some False\<rparr>])"
  using command_icon_click [where
      col = "\<lparr>commands = Some [\<lparr>commandId = ''copy'', icon = ''files'', value' = (1::nat)\<rparr>,
                                \<lparr>commandId = ''export'', icon = ''desktop-download'', value' = 2\<rparr>]\<rparr>"
      and cs = "[\<lparr>commandId = ''copy'', icon = ''files'', value' = (1::nat)\<rparr>,
                 \<lparr>commandId = ''export'', icon = ''desktop-download'', value' = 2\<rparr>]"
      and k = 1
      and props = "(recordingProps (Some []))
       \<lparr>action := Some \<lparr>onAction = Some (\<lambda>event command v row log.
           (event\<lparr>propagationStopped := True\<rparr>, log @ [ActionCall event command v row]))\<rparr>\<rparr>"
      and ac = "\<lparr>onAction = Some (\<lambda>event command v row log.
           (event\<lparr>propagationStopped := True\<rparr>, log @ [ActionCall event command v row]))\<rparr>"
      and f = "\<lambda>event command v row log.
           (event\<lparr>propagationStopped := True\<rparr>, log @ [ActionCall event command v row])"
      and X = "\<lparr>id' = ''x'', pinned = Some False\<rparr>"
      and event = "\<lparr>propagationStopped = False\<rparr>" and s = "[]"]
  by (simp add: recordingProps_def Let_def numeral_2_eq_2)

text \<open>
  C2 fails on the code. The caller's array holds the rows \<open>bb\<close>, \<open>a\<close> in this order and the
  comparator puts shorter identifiers first. After the mount pass the component's state
  refers to the caller's own array, and that array holds \<open>a\<close>, \<open>bb\<close>: the sort of the
  first effect has reordered the array that was passed in.
\<close>

theorem mount_sorts_supplied_array_in_place:
  "(case mount ((recordingProps None :: (nat Invocation list, nat) ComponentTreeTableProps)
                   \<lparr>dataSource := Some 0, dataSourceComparer := Some byIdLength\<rparr>)
          (800, 600)
          \<lparr>cells = (\<lambda>a. [])(0 := [\<lparr>id' = ''bb'', pinned = None\<rparr>, \<lparr>id' = ''a'', pinned = None\<rparr>]),
            next_free = 1\<rparr> of
      (out, st', h') \<Rightarrow>
        dataSource_state st' = 0
        \<and> cells h' 0 = [\<lparr>id' = ''a'', pinned = None\<rparr>, \<lparr>id' = ''bb'', pinned = None\<rparr>]
        \<and> cells h' 0 \<noteq> [\<lparr>id' = ''bb'', pinned = None\<rparr>, \<lparr>id' = ''a'', pinned = None\<rparr>])"
  by (simp add: mount_def recordingProps_def dataSource_or_empty_def sortEffect_def Array_sort_def
      sorted_list_def sortCompare_def byIdLength_def columnsEffect_def updateSize_def Let_def)

text \<open>
  C3. When the expanded keys and the expand callback are supplied, a click on a row
  outside its icons invokes the expand callback with the row and, as new expanded flag,
  the negation of "the row's key is among the expanded keys".
\<close>

theorem row_click_toggles:
  assumes "expansion props = Some e"
    and "expandedRowKeys e = Some keys"
    and "onExpand e = Some f"
  shows "clickRow props row event s = (event, f (\<not> (id' row \<in> set keys)) row s)"
  using assms by (simp add: clickRow_def onRow_onClick_def Array_includes_def)

theorem row_click_toggles_witness:
  "clickRow (recordingProps (Some [''a'']) :: (nat Invocation list, nat) ComponentTreeTableProps)
     \<lparr>id' = ''b'', pinned = None\<rparr> \<lparr>propagationStopped = False\<rparr> []
     = (\<lparr>propagationStopped = False\<rparr>, [Expand True \<lparr>id' = ''b'', pinned = None\<rparr>])
   \<and> clickRow (recordingProps (Some [''a'']) :: (nat Invocation list, nat) ComponentTreeTableProps)
     \<lparr>id' = ''a'', pinned = None\<rparr> \<lparr>propagationStopped = False\<rparr> []
     = (\<lparr>propagationStopped = False\<rparr>, [Expand False \<lparr>id' = ''a'', pinned = None\<rparr>])"
  using row_click_toggles [where
      props = "recordingProps (Some [''a'']) :: (nat Invocation list, nat) ComponentTreeTableProps"
      and e = "\<lparr>expandedRowKeys = Some [''a''],
                onExpand = Some (\<lambda>expanded row log. log @ [Expand expanded row])\<rparr>"
      and keys = "[''a'']" and f = "\<lambda>expanded row log. log @ [Expand expanded row]"
      and row = "\<lparr>id' = ''b'', pinned = None\<rparr>" and event = "\<lparr>propagationStopped = False\<rparr>"
      and s = "[]"]
    row_click_toggles [where
      props = "recordingProps (Some [''a'']) :: (nat Invocation list, nat) ComponentTreeTableProps"
      and e = "\<lparr>expandedRowKeys = Some [''a''],
                onExpand = Some (\<lambda>expanded row log. log @ [Expand expanded row])\<rparr>"
      and keys = "[''a'']" and f = "\<lambda>expanded row log. log @ [Expand expanded row]"
      and row = "\<lparr>id' = ''a'', pinned = None\<rparr>" and event = "\<lparr>propagationStopped = False\<rparr>"
      and s = "[]"]
  by (simp add: recordingProps_def)

text \<open>
  C4. Let the props supply the row array \<open>a\<close> and a consistent comparator \<open>C\<close>. After the
  mount pass, and after every later pass in which the row array or the pinned keys
  differ from those of the last run of the effect, the component's state refers to \<open>a\<close>
  and \<open>a\<close> holds the rows it held before in the order of \<open>C\<close>: sorted, with the same rows,
  and with rows that compare equal in their previous order.
\<close>

theorem sort_effect_holds_sorted_rows:
  assumes c: "consistentComparator C"
    and d: "dataSource props = Some a"
    and cmp: "dataSourceComparer props = Some C"
    and changed: "dataSource props \<noteq> fst (sortDeps st)
                  \<or> (case pin props of None \<Rightarrow> None | Some p \<Rightarrow> map_option fst (pinnedRowKeys p))
                       \<noteq> snd (sortDeps st)"
  shows "(case update props st h of
            (out, st', h') \<Rightarrow>
              dataSource_state st' = a
              \<and> cells h' a = sorted_list (Some C) (cells h a)
              \<and> sorted_wrt (\<lambda>x y. C x y \<le> 0) (cells h' a)
              \<and> mset (cells h' a) = mset (cells h a)
              \<and> (\<forall>k. filter (\<lambda>y. C k y = 0) (cells h' a) = filter (\<lambda>y. C k y = 0) (cells h a)))
       \<and> (case mount props window h of
            (out, st', h') \<Rightarrow>
              dataSource_state st' = a
              \<and> cells h' a = sorted_list (Some C) (cells h a)
              \<and> sorted_wrt (\<lambda>x y. C x y \<le> 0) (cells h' a)
              \<and> mset (cells h' a) = mset (cells h a)
              \<and> (\<forall>k. filter (\<lambda>y. C k y = 0) (cells h' a) = filter (\<lambda>y. C k y = 0) (cells h a)))"
proof -
  have due: "sortEffectDeps props \<noteq> sortDeps st"
    using changed by (cases "sortDeps st") (auto simp: sortEffectDeps_def)
  have order: "sorted_wrt (\<lambda>x y. C x y \<le> 0) (sorted_list (Some C) (cells h a))"
    "mset (sorted_list (Some C) (cells h a)) = mset (cells h a)"
    "\<And>k. filter (\<lambda>y. C k y = 0) (sorted_list (Some C) (cells h a)) = filter (\<lambda>y. C k y = 0) (cells h a)"
    using c by (simp_all add: sorted_sorted_list mset_sorted_list stable_sorted_list)
  have "?thesis = True"
    using due order
    by (simp add: update_def mount_def sortEffect_supplied [OF d] cmp columnsEffect_def
        dataSource_or_empty_def updateSize_def d Let_def)
  then show ?thesis by simp
qed

theorem sort_effect_holds_sorted_rows_witness:
  "(case update ((recordingProps None :: (nat Invocation list, nat) ComponentTreeTableProps)
                   \<lparr>dataSource := Some 0, dataSourceComparer := Some byIdLength,
                    pin := Some \<lparr>pinnedRowKeys = Some (1, [''a'']), onPin = None\<rparr>\<rparr>)
          \<lparr>size_state = (800, 600), dataSource_state = 0, columns_state = [],
            sortDeps = (Some 0, None), columnDeps = None\<rparr>
          \<lparr>cells = (\<lambda>a. [])(0 := [\<lparr>id' = ''ccc'', pinned = None\<rparr>, \<lparr>id' = ''bb'', pinned = Some True\<rparr>,
                                    \<lparr>id' = ''a'', pinned = None\<rparr>, \<lparr>id' = ''dd'', pinned = None\<rparr>]),
            next_free = 2\<rparr> of
      (out, st', h') \<Rightarrow>
        cells h' (dataSource_state st') =
          [\<lparr>id' = ''a'', pinned = None\<rparr>, \<lparr>id' = ''bb'', pinned = Some True\<rparr>,
           \<lparr>id' = ''dd'', pinned = None\<rparr>, \<lparr>id' = ''ccc'', pinned = None\<rparr>])"
  using sort_effect_holds_sorted_rows [OF consistent_byIdLength, where
      props = "(recordingProps None :: (nat Invocation list, nat) ComponentTreeTableProps)
                   \<lparr>dataSource := Some 0, dataSourceComparer := Some byIdLength,
                    pin := Some \<lparr>pinnedRowKeys = Some (1, [''a'']), onPin = None\<rparr>\<rparr>"
      and a = 0
      and st = "\<lparr>size_state = (800, 600), dataSource_state = 0, columns_state = [],
                 sortDeps = (Some 0, None), columnDeps = None\<rparr>"
      and window = "(800, 600)"
      and h = "\<lparr>cells = (\<lambda>a. [])(0 := [\<lparr>id' = ''ccc'', pinned = None\<rparr>, \<lparr>id' = ''bb'', pinned = Some True\<rparr>,
                                    \<lparr>id' = ''a'', pinned = None\<rparr>, \<lparr>id' = ''dd'', pinned = None\<rparr>]),
            next_free = 2\<rparr>"]
  by (simp add: recordingProps_def sorted_list_def sortCompare_def byIdLength_def split: prod.splits)

text \<open>
  C6. A column definition whose \<open>type\<close> is neither \<open>string\<close> nor \<open>action\<close> gives, at its
  position in the column set, the default column: titled by the field, reading the
  label of the row's cell for that field, 200 wide and without a renderer. The column
  set has one column for each definition, whatever the types are.
\<close>

theorem unknown_column_type_default:
  assumes "i < length defs"
    and "type' (defs ! i) \<noteq> ''string''"
    and "type' (defs ! i) \<noteq> ''action''"
  shows "length (createColumns defs) = length defs
       \<and> createColumns defs ! i =
           \<lparr>title = field (defs ! i), dataIndex = [''columns'', field (defs ! i), ''label''],
            width = 200, render = None\<rparr>"
  using assms by (simp add: createColumns_def)

theorem unknown_column_type_default_witness:
  "createColumns [\<lparr>type' = ''string'', field = ''name''\<rparr>, \<lparr>type' = ''number'', field = ''offset''\<rparr>,
                  \<lparr>type' = ''action'', field = ''actions''\<rparr>] ! 1
   = \<lparr>title = ''offset'', dataIndex = [''columns'', ''offset'', ''label''], width = 200, render = None\<rparr>"
  using unknown_column_type_default [where
      defs = "[\<lparr>type' = ''string'', field = ''name''\<rparr>, \<lparr>type' = ''number'', field = ''offset''\<rparr>,
               \<lparr>type' = ''action'', field = ''actions''\<rparr>]" and i = 1]
  by simp

text \<open>
  C7. The component returns the placeholder exactly when the row array its state refers
  to is empty, and a table exactly when it is not. On the mount pass this is the case
  exactly when no row array was supplied or the supplied one is empty.
\<close>

theorem placeholder_iff_no_rows:
  "(render_result props st h = Placeholder ''No children provided'')
     = (cells h (dataSource_state st) = [])
   \<and> ((\<exists>t. render_result props st h = Table t) = (cells h (dataSource_state st) \<noteq> []))
   \<and> (fst (mount props window h) = Placeholder ''No children provided'')
     = (case dataSource props of None \<Rightarrow> True | Some a \<Rightarrow> cells h a = [])"
proof -
  have view: "(render_result props st h = Placeholder ''No children provided'')
     = (cells h (dataSource_state st) = [])"
    "(\<exists>t. render_result props st h = Table t) = (cells h (dataSource_state st) \<noteq> [])"
    by (simp_all add: render_result_def)
  have first: "(fst (mount props window h) = Placeholder ''No children provided'')
     = (case dataSource props of None \<Rightarrow> True | Some a \<Rightarrow> cells h a = [])"
  proof (cases "dataSource props")
    case None
    then show ?thesis
      by (simp add: mount_def dataSource_or_empty_def alloc_def render_result_def Let_def
          split: prod.splits)
  next
    case (Some a)
    then show ?thesis
      by (simp add: mount_def dataSource_or_empty_def render_result_def Let_def
          split: prod.splits)
  qed
  from view first show ?thesis by simp
qed

text \<open>
  C8. The icons of an action cell are the pin toggle, present exactly when the row's
  \<open>pinned\<close> is defined, followed by one icon for each command. When the pin callback is
  supplied, the toggle's handler invokes it with the event, the negation of the row's
  pinned state and the row; a click on the toggle runs this handler first.
\<close>

theorem pin_toggle_icon:
  "map key (children (renderActionColumn props column X)) =
     (case pinned X of None \<Rightarrow> [] | Some p \<Rightarrow> [if p then ''unpin'' else ''pin''])
     @ map commandId
         (case column of None \<Rightarrow> [] | Some c \<Rightarrow> (case commands c of None \<Rightarrow> [] | Some cs \<Rightarrow> cs))
   \<and> (\<forall>p pc f. pinned X = Some p \<and> pin props = Some pc \<and> onPin pc = Some f \<longrightarrow>
        (let el = children (renderActionColumn props column X) ! 0
         in onClick el event s = f event (\<not> p) X s
            \<and> clickIcon props el X event s =
                (case f event (\<not> p) X s of
                   (event', s') \<Rightarrow>
                     if propagationStopped event' then (event', s')
                     else (event', onRow_onClick props X s'))))"
  by (cases "pinned X")
     (auto simp add: children_renderActionColumn clickIcon_def call_onPin_def
        Let_def comp_def split: prod.splits)

theorem pin_toggle_icon_witness:
  "map key (children (renderActionColumn (recordingProps (Some []))
        (Some \<lparr>commands = Some [\<lparr>commandId = ''copy'', icon = ''files'', value' = (1::nat)\<rparr>]\<rparr>)
        \<lparr>id' = ''x'', pinned = Some True\<rparr>)) = [''unpin'', ''copy'']
   \<and> clickIcon (recordingProps (Some []))
       (children (renderActionColumn (recordingProps (Some []))
          (Some \<lparr>commands = Some [\<lparr>commandId = ''copy'', icon = ''files'', value' = (1::nat)\<rparr>]\<rparr>)
          \<lparr>id' = ''x'', pinned = Some True\<rparr>) ! 0)
       \<lparr>id' = ''x'', pinned = Some True\<rparr> \<lparr>propagationStopped = False\<rparr> []
     = (\<lparr>propagationStopped = False\<rparr>,
        [PinCall \<lparr>propagationStopped = False\<rparr> False \<lparr>id' = ''x'', pinned = Some True\<rparr>,
         Expand True \<lparr>id' = ''x'', pinned = Some True\<rparr>])"
proof -
  let ?props = "recordingProps (Some []) :: (nat Invocation list, nat) ComponentTreeTableProps"
  let ?column = "Some \<lparr>commands = Some [\<lparr>commandId = ''copy'', icon = ''files'', value' = (1::nat)\<rparr>]\<rparr>"
  let ?X = "\<lparr>id' = ''x'', pinned = Some True\<rparr>"
  let ?pc = "\<lparr>pinnedRowKeys = None,
              onPin = Some (\<lambda>event p row log. (event, log @ [PinCall event p row :: nat Invocation]))\<rparr>"
  let ?f = "\<lambda>event p row log. (event, log @ [PinCall event p row :: nat Invocation])"
  note t = pin_toggle_icon [where props = ?props and column = ?column and X = ?X
      and event = "\<lparr>propagationStopped = False\<rparr>" and s = "[]"]
  have hyps: "pinned ?X = Some True \<and> pin ?props = Some ?pc \<and> onPin ?pc = Some ?f"
    by (simp add: recordingProps_def)
  from t have keys: "map key (children (renderActionColumn ?props ?column ?X)) = [''unpin'', ''copy'']"
    by simp
  from t hyps have
    "let el = children (renderActionColumn ?props ?column ?X) ! 0
     in onClick el \<lparr>propagationStopped = False\<rparr> [] = ?f \<lparr>propagationStopped = False\<rparr> (\<not> True) ?X []
        \<and> clickIcon ?props el ?X \<lparr>propagationStopped = False\<rparr> [] =
            (case ?f \<lparr>propagationStopped = False\<rparr> (\<not> True) ?X [] of
               (event', s') \<Rightarrow>
                 if propagationStopped event' then (event', s')
                 else (event', onRow_onClick ?props ?X s'))"
    by blast
  then have click: "clickIcon ?props (children (renderActionColumn ?props ?column ?X) ! 0) ?X
      \<lparr>propagationStopped = False\<rparr> []
      = (\<lparr>propagationStopped = False\<rparr>, [PinCall \<lparr>propagationStopped = False\<rparr> False ?X, Expand True ?X])"
    by (simp add: Let_def onRow_onClick_def recordingProps_def Array_includes_def)
  from keys click show ?thesis by simp
qed

text \<open>
  C10. When the expansion configuration is supplied with an expand callback and without
  expanded keys, a click on any row invokes the callback with \<open>true\<close> and the row, which is
  what it does when the expanded keys are the empty list. Without an expansion
  configuration, or without a callback in it, the click invokes nothing.
\<close>

theorem row_click_without_keys:
  assumes "expansion props = Some e"
    and "expandedRowKeys e = None"
    and "onExpand e = Some f"
  shows "clickRow props row event s = (event, f True row s)
       \<and> clickRow props row event s =
           clickRow (props\<lparr>expansion := Some (e\<lparr>expandedRowKeys := Some []\<rparr>)\<rparr>) row event s
       \<and> clickRow (props\<lparr>expansion := None\<rparr>) row event s = (event, s)
       \<and> clickRow (props\<lparr>expansion := Some (e\<lparr>onExpand := None\<rparr>)\<rparr>) row event s = (event, s)"
  using assms by (simp add: clickRow_def onRow_onClick_def Array_includes_def)

theorem row_click_without_keys_witness:
  "clickRow (recordingProps None :: (nat Invocation list, nat) ComponentTreeTableProps)
     \<lparr>id' = ''b'', pinned = None\<rparr> \<lparr>propagationStopped = False\<rparr> []
     = (\<lparr>propagationStopped = False\<rparr>, [Expand True \<lparr>id' = ''b'', pinned = None\<rparr>])"
  using row_click_without_keys [where
      props = "recordingProps None :: (nat Invocation list, nat) ComponentTreeTableProps"
      and e = "\<lparr>expandedRowKeys = None,
                onExpand = Some (\<lambda>expanded row log. log @ [Expand expanded row])\<rparr>"
      and f = "\<lambda>expanded row log. log @ [Expand expanded row]"
      and row = "\<lparr>id' = ''b'', pinned = None\<rparr>" and event = "\<lparr>propagationStopped = False\<rparr>"
      and s = "[]"]
  by (simp add: recordingProps_def)

section \<open>Properties of the message node\<close>

text \<open>
  C5. For a message node with any message and any tooltip: the children are the empty
  sequence, there is no copy value, \<open>performUpdate\<close> and \<open>updateData\<close> both resolve to
  \<open>false\<close>, no state is saved for any path prefix, the accumulator of address ranges is
  left as it was, there is no owning peripheral, and no path is found.
\<close>

theorem MessageNode_fixed_answers:
  "getChildren \<lparr>message = m, tooltip = t\<rparr> = []
   \<and> getCopyValue \<lparr>message = m, tooltip = t\<rparr> = None
   \<and> performUpdate \<lparr>message = m, tooltip = t\<rparr> = Resolved False
   \<and> updateData \<lparr>message = m, tooltip = t\<rparr> = Resolved False
   \<and> saveState \<lparr>message = m, tooltip = t\<rparr> prefix = []
   \<and> collectRanges \<lparr>message = m, tooltip = t\<rparr> acc = acc
   \<and> getPeripheral \<lparr>message = m, tooltip = t\<rparr> = None
   \<and> findByPath \<lparr>message = m, tooltip = t\<rparr> p = None"
  by (simp add: getChildren_def getCopyValue_def performUpdate_def updateData_def
      saveState_def collectRanges_def getPeripheral_def findByPath_def)

text \<open>
  C9, as stated, fails: a node constructed with the empty string as its tooltip was
  given a tooltip, and its display item has no tooltip property.
\<close>

theorem getTreeItem_empty_tooltip_omitted:
  "MessageNode.tooltip \<lparr>message = ''No data'', tooltip = Some (Str '''')\<rparr> = Some (Str '''')
   \<and> TreeItem.tooltip (getTreeItem \<lparr>message = ''No data'', tooltip = Some (Str '''')\<rparr>) = None"
  by (simp add: getTreeItem_def new_TreeItem_def)

text \<open>
  C9, amended. The display item carries the node's message as label and is not
  collapsible. Its tooltip property is assigned exactly when the node's tooltip is
  truthy: a non-empty string or a markdown object is passed on, and the property is
  left out when no tooltip or the empty string was supplied.
\<close>

theorem getTreeItem_tooltip:
  "getTreeItem \<lparr>message = m, tooltip = t\<rparr> =
     \<lparr>label = m, collapsibleState = State_None,
      tooltip = (case t of
                   None \<Rightarrow> None
                 | Some (Str s) \<Rightarrow> if s = [] then None else Some (Str s)
                 | Some (MarkdownString v) \<Rightarrow> Some (MarkdownString v))\<rparr>"
  by (cases t rule: truthy.cases) (simp_all add: getTreeItem_def new_TreeItem_def)

end
